theory Spec2Isabelle
  imports Main "HOL-Library.Word" "HOL-Library.Multiset"
begin

section \<open>Data model (server/models.go)\<close>

text \<open>
  Go strings are byte sequences and \<^verbatim>\<open>len\<close> counts bytes; \<^typ>\<open>string\<close> is a list of
  8-bit characters, so \<^const>\<open>length\<close> is Go's \<^verbatim>\<open>len\<close>. A \<^verbatim>\<open>primitive.ObjectID\<close> is an
  array of 12 bytes, \<^verbatim>\<open>int32\<close> a 32-bit word read with \<^const>\<open>sint\<close>.
\<close>

definition AnswerMaxLength :: nat where
  "AnswerMaxLength = 280"

definition questionCount :: nat where
  "questionCount = 4"

definition StatusOK :: nat where
  "StatusOK = 200"

definition StatusCreated :: nat where
  "StatusCreated = 201"

datatype JSendStatus = Success | Fail | Error

type_synonym ObjectID = "8 word list"

type_synonym int32 = "32 word"

record Candidate =
  candidate_Id :: ObjectID
  candidate_Name :: string
  candidate_Votes :: int32
  candidate_Answers :: "string list"

record LeaderboardEntry =
  entry_Id :: ObjectID
  entry_Name :: string
  entry_Votes :: int32

record Answer =
  answer_Id :: ObjectID
  answer_Name :: string
  answer_Votes :: int32
  answer_Answer :: string

text \<open>
  The \<^verbatim>\<open>Data any\<close> field of a response holds \<^verbatim>\<open>nil\<close>, a \<^verbatim>\<open>map[string]string\<close> or a
  \<^verbatim>\<open>map[string]any\<close> whose single value is one of the three listings.
\<close>

datatype any_value =
  Candidates "Candidate list"
| AnswerBuckets "Answer list list"
| LeaderboardEntries "LeaderboardEntry list"

datatype data =
  Null
| StringMap "(string \<times> string) list"
| AnyMap "(string \<times> any_value) list"

datatype rendered =
  Response JSendStatus data
| ErrorResponse JSendStatus string

definition NewResponseSuccess :: "data \<Rightarrow> rendered" where
  "NewResponseSuccess d = Response Success d"

definition NewResponseFail :: "data \<Rightarrow> rendered" where
  "NewResponseFail d = Response Fail d"

definition NewErrorResponse :: "string \<Rightarrow> rendered" where
  "NewErrorResponse message = ErrorResponse Error message"

text \<open>\<^verbatim>\<open>Answers\<close> is a slice: \<^const>\<open>None\<close> is the nil slice, \<open>Some []\<close> an empty one.\<close>

record CandidateRequest =
  request_Name :: string
  request_Answers :: "string list option"

datatype error = ErrMissingName | ErrMissingAnswers | ErrAnswersTooLong | ErrDecode string

fun error_Error :: "error \<Rightarrow> string" where
  "error_Error ErrMissingName = ''missing name''"
| "error_Error ErrMissingAnswers = ''missing answers''"
| "error_Error ErrAnswersTooLong = ''one or more answers are too long''"
| "error_Error (ErrDecode message) = message"

definition errors_Is :: "error option \<Rightarrow> error \<Rightarrow> bool" where
  "errors_Is err target = (err = Some target)"

fun err_Error :: "error option \<Rightarrow> string" where
  "err_Error (Some e) = error_Error e"
| "err_Error None = []"

text \<open>The \<^verbatim>\<open>for _, answer := range request.Answers\<close> loop of \<^verbatim>\<open>Bind\<close>.\<close>

fun range_Answers :: "string list \<Rightarrow> error option" where
  "range_Answers [] = None"
| "range_Answers (answer # rest) =
     (if length answer > AnswerMaxLength then Some ErrAnswersTooLong
      else range_Answers rest)"

definition CandidateRequest_Bind :: "CandidateRequest \<Rightarrow> error option" where
  "CandidateRequest_Bind request =
     (if request_Name request = [] then Some ErrMissingName
      else case request_Answers request of
             None \<Rightarrow> Some ErrMissingAnswers
           | Some answers \<Rightarrow> range_Answers answers)"

section \<open>Requests, responses and the document store\<close>

text \<open>
  What the router, the render package and the driver hand to a handler. The body is
  given by what \<^verbatim>\<open>render.Decode\<close> makes of it when it fills the zero-valued
  \<^verbatim>\<open>CandidateRequest\<close>: either it succeeds, or it returns an error (with its message)
  and leaves the request value as far as it got: the zero value when nothing could be
  read, as for a body that is not JSON; the fields that were read when another field has
  the wrong type, which \<^verbatim>\<open>encoding/json\<close> skips before it reports the type error.
\<close>

datatype decode = Decoded CandidateRequest | DecodeFailed string CandidateRequest

record request =
  url_params :: "string \<Rightarrow> string option"
  ctx :: "string \<Rightarrow> string option"
  status_ctx :: "nat option"
  body :: decode

definition URLParam :: "request \<Rightarrow> string \<Rightarrow> string" where
  "URLParam r key = (case url_params r key of None \<Rightarrow> [] | Some v \<Rightarrow> v)"

record http_response =
  code :: nat
  payload :: rendered

definition render_Status :: "request \<Rightarrow> nat \<Rightarrow> request" where
  "render_Status r status = r\<lparr>status_ctx := Some status\<rparr>"

definition render_Render :: "request \<Rightarrow> rendered \<Rightarrow> http_response" where
  "render_Render r v =
     \<lparr>code = (case status_ctx r of None \<Rightarrow> StatusOK | Some s \<Rightarrow> s), payload = v\<rparr>"

text \<open>\<^verbatim>\<open>render.Bind\<close>: decode the body, then call the request's own \<^verbatim>\<open>Bind\<close>.\<close>

definition render_Bind :: "request \<Rightarrow> error option \<times> CandidateRequest" where
  "render_Bind r =
     (case body r of
        DecodeFailed message d \<Rightarrow> (Some (ErrDecode message), d)
      | Decoded d \<Rightarrow> (CandidateRequest_Bind d, d))"

text \<open>
  A stored document of a branch collection, with the fields \<^verbatim>\<open>_id\<close>, \<^verbatim>\<open>name\<close>,
  \<^verbatim>\<open>answers\<close> (null for a nil slice) and \<^verbatim>\<open>votes\<close> (a stored number, which the store
  widens when an increment leaves 32 bits). A collection keeps its documents in
  insertion order; the database maps a collection name to its documents.
\<close>

record document =
  doc_id :: ObjectID
  doc_name :: string
  doc_answers :: "string list option"
  doc_votes :: int

type_synonym database = "string \<Rightarrow> document list"

text \<open>
  What the store does with a query. \<^verbatim>\<open>collection.Find\<close> returns an error, or it returns
  a cursor. The cursor delivers the selected documents in batches: \<^verbatim>\<open>cur.Next\<close> returns
  true for each document it delivers and false at the end, and it also returns false
  when fetching a further batch fails, keeping the error for \<^verbatim>\<open>cur.Err\<close>. So a query runs
  to completion, or \<^verbatim>\<open>Find\<close> fails, or \<^verbatim>\<open>cur.Next\<close> fails after some number of documents.
\<close>

datatype find_outcome = FindFails | NextFails nat | Completes

text \<open>
  Everything a handler call takes from outside the program: the driver's identifier
  parser, the outcome of the query, whether the insert and the update report an error,
  the identifier the driver generates for an inserted document, and the random draws of
  each shuffle (\<open>rand_draw env k i\<close> is the draw at index \<open>i\<close> of the \<open>k\<close>-th shuffle of
  the call; each shuffle is seeded anew).
\<close>

record environment =
  ObjectIDFromHex :: "string \<Rightarrow> ObjectID option"
  find_outcome :: find_outcome
  insert_fails :: bool
  update_fails :: bool
  generated_id :: ObjectID
  rand_draw :: "nat \<Rightarrow> nat \<Rightarrow> nat"

text \<open>The query fails: at the call of \<^verbatim>\<open>Find\<close> or while the cursor is read.\<close>

definition find_fails :: "environment \<Rightarrow> bool" where
  "find_fails env = (find_outcome env \<noteq> Completes)"

datatype store_error = StoreError

datatype sort_option = Unsorted | Sort string int

datatype update_operator = Inc string int

text \<open>
  The store calls of the handlers. A call that reports an error leaves the database as
  it was. \<^verbatim>\<open>InsertOne\<close> appends the document under the generated id. \<^verbatim>\<open>UpdateOne\<close>
  changes the first document the filter \<^verbatim>\<open>{"_id": id}\<close> matches; \<open>votes\<close> is the only
  numeric field of a document, and an increment of any other field is outside the model
  and reported as an error. \<^verbatim>\<open>Find\<close> with the empty filter selects every document of
  the collection, in the order of the sort option when there is one. The cursor it
  returns is modelled by the list of the documents that \<^verbatim>\<open>cur.Next\<close> delivers before it
  returns false: all the selected documents, or the first \<open>n\<close> of them when \<^verbatim>\<open>cur.Next\<close>
  fails after \<open>n\<close> documents. The handlers never read \<^verbatim>\<open>cur.Err\<close>, so the list is all
  they see of the cursor.
\<close>

definition InsertOne ::
  "environment \<Rightarrow> database \<Rightarrow> string \<Rightarrow> string \<Rightarrow> string list option \<Rightarrow> int
     \<Rightarrow> store_error + database" where
  "InsertOne env db coll name answers votes =
     (if insert_fails env then Inl StoreError
      else Inr (db(coll := db coll @
             [\<lparr>doc_id = generated_id env, doc_name = name,
               doc_answers = answers, doc_votes = votes\<rparr>])))"

fun inc_first :: "ObjectID \<Rightarrow> int \<Rightarrow> document list \<Rightarrow> document list" where
  "inc_first oid n [] = []"
| "inc_first oid n (d # ds) =
     (if doc_id d = oid then d\<lparr>doc_votes := doc_votes d + n\<rparr> # ds
      else d # inc_first oid n ds)"

fun UpdateOne ::
  "environment \<Rightarrow> database \<Rightarrow> string \<Rightarrow> ObjectID \<Rightarrow> update_operator
     \<Rightarrow> store_error + database" where
  "UpdateOne env db coll oid (Inc field n) =
     (if update_fails env \<or> field \<noteq> ''votes'' then Inl StoreError
      else Inr (db(coll := inc_first oid n (db coll))))"

fun selected :: "sort_option \<Rightarrow> document list \<Rightarrow> document list" where
  "selected Unsorted docs = docs"
| "selected (Sort field dir) docs =
     (if field = ''votes'' \<and> dir < 0 then sort_key (\<lambda>d. - doc_votes d) docs
      else if field = ''votes'' then sort_key doc_votes docs
      else docs)"

fun cursor_documents :: "find_outcome \<Rightarrow> document list \<Rightarrow> document list" where
  "cursor_documents (NextFails n) docs = take n docs"
| "cursor_documents outcome docs = docs"

definition Find ::
  "environment \<Rightarrow> database \<Rightarrow> string \<Rightarrow> sort_option \<Rightarrow> store_error + document list" where
  "Find env db coll opt =
     (if find_outcome env = FindFails then Inl StoreError
      else Inr (cursor_documents (find_outcome env) (selected opt (db coll))))"

text \<open>
  \<^verbatim>\<open>cur.Decode\<close> into a \<^verbatim>\<open>Candidate\<close> or a \<^verbatim>\<open>LeaderboardEntry\<close>: the driver refuses a
  stored number that overflows \<^verbatim>\<open>int32\<close>; a null \<^verbatim>\<open>answers\<close> gives the nil slice.
\<close>

definition fits_int32 :: "int \<Rightarrow> bool" where
  "fits_int32 v = (- (2 ^ 31) \<le> v \<and> v < 2 ^ 31)"

definition Decode_Candidate :: "document \<Rightarrow> Candidate option" where
  "Decode_Candidate d =
     (if fits_int32 (doc_votes d)
      then Some \<lparr>candidate_Id = doc_id d, candidate_Name = doc_name d,
                 candidate_Votes = word_of_int (doc_votes d),
                 candidate_Answers = (case doc_answers d of None \<Rightarrow> [] | Some as \<Rightarrow> as)\<rparr>
      else None)"

definition Decode_LeaderboardEntry :: "document \<Rightarrow> LeaderboardEntry option" where
  "Decode_LeaderboardEntry d =
     (if fits_int32 (doc_votes d)
      then Some \<lparr>entry_Id = doc_id d, entry_Name = doc_name d,
                 entry_Votes = word_of_int (doc_votes d)\<rparr>
      else None)"

datatype panic = InterfaceConversion | IndexOutOfRange nat nat

datatype outcome = Panic panic | Done http_response database

type_synonym handler = "request \<Rightarrow> database \<Rightarrow> outcome"

section \<open>Handlers\<close>

definition BranchCtx :: "handler \<Rightarrow> handler" where
  \<open>BranchCtx next r db =
     (let branch = URLParam r ''branch'' in
      if branch \<noteq> ''senate'' \<and> branch \<noteq> ''treasury''
      then Done (render_Render r (NewResponseFail (StringMap
             [(''message'',
               ''Invalid branch "'' @ branch @ ''"; must be either "senate" or "treasury"'')])))
             db
      else next (r\<lparr>ctx := (ctx r)(''branch'' \<mapsto> branch)\<rparr>) db)\<close>

definition PostCandidates :: "environment \<Rightarrow> handler" where
  "PostCandidates env r db =
     (case render_Bind r of (err, data) \<Rightarrow>
      if errors_Is err ErrMissingName
      then Done (render_Render r (NewResponseFail (StringMap [(''name'', err_Error err)]))) db
      else if errors_Is err ErrMissingAnswers \<or> errors_Is err ErrAnswersTooLong
      then Done (render_Render r (NewResponseFail (StringMap [(''answers'', err_Error err)]))) db
      else case ctx r ''branch'' of
             None \<Rightarrow> Panic InterfaceConversion
           | Some branch \<Rightarrow>
               (case InsertOne env db branch (request_Name data) (request_Answers data) 0 of
                  Inl _ \<Rightarrow>
                    Done (render_Render r (NewErrorResponse
                      ''There was an error adding the candidate to the database.'')) db
                | Inr db' \<Rightarrow>
                    Done (render_Render (render_Status r StatusCreated)
                      (NewResponseSuccess Null)) db'))"

definition PatchVotes :: "environment \<Rightarrow> handler" where
  "PatchVotes env r db =
     (case ObjectIDFromHex env (URLParam r ''id'') of
        None \<Rightarrow> Done (render_Render r (NewErrorResponse ''Could not get ObjectID'')) db
      | Some oid \<Rightarrow>
          (case ctx r ''branch'' of
             None \<Rightarrow> Panic InterfaceConversion
           | Some branch \<Rightarrow>
               (case UpdateOne env db branch oid (Inc ''votes'' 1) of
                  Inl _ \<Rightarrow>
                    Done (render_Render r (NewErrorResponse ''Could not increment votes'')) db
                | Inr db' \<Rightarrow> Done (render_Render r (NewResponseSuccess Null)) db')))"

text \<open>
  \<^verbatim>\<open>randomize\<close> is \<^verbatim>\<open>rand.Shuffle\<close>: for \<open>i\<close> from \<open>len(x) - 1\<close> down to 1 it draws
  \<open>j\<close> in \<open>[0, i]\<close> and swaps \<open>x[i]\<close> with \<open>x[j]\<close>. The draw made at index \<open>i\<close> is
  \<open>draw i\<close>, reduced into the range the generator guarantees.
\<close>

definition swap :: "nat \<Rightarrow> nat \<Rightarrow> 'a list \<Rightarrow> 'a list" where
  "swap i j x = x[i := x ! j, j := x ! i]"

fun shuffle_loop :: "(nat \<Rightarrow> nat) \<Rightarrow> nat \<Rightarrow> 'a list \<Rightarrow> 'a list" where
  "shuffle_loop draw 0 x = x"
| "shuffle_loop draw (Suc i) x =
     shuffle_loop draw i (swap (Suc i) (draw (Suc i) mod (Suc i + 1)) x)"

definition randomize :: "(nat \<Rightarrow> nat) \<Rightarrow> 'a list \<Rightarrow> 'a list" where
  "randomize draw x = shuffle_loop draw (length x - 1) x"

text \<open>
  What a cursor loop does after its last statement: go on with the next document, leave
  the handler with a rendered response, or panic.
\<close>

datatype 'a step = Next 'a | Stop rendered | Crash panic

text \<open>
  The loop \<^verbatim>\<open>for i := 0; i < questionCount; i++\<close> of \<^verbatim>\<open>GetAnswers\<close>, over the indices
  still to visit. \<^verbatim>\<open>candidate.Answers[i]\<close> panics when \<open>i\<close> is not below the length of the
  slice; \<^verbatim>\<open>answers\<close> is an array of \<^const>\<open>questionCount\<close> slices.
\<close>

fun question_loop :: "Candidate \<Rightarrow> nat list \<Rightarrow> Answer list list \<Rightarrow> panic + Answer list list" where
  "question_loop candidate [] answers = Inr answers"
| "question_loop candidate (i # rest) answers =
     (if i < length (candidate_Answers candidate)
      then question_loop candidate rest
             (answers[i := answers ! i @
                [\<lparr>answer_Id = candidate_Id candidate,
                  answer_Name = candidate_Name candidate,
                  answer_Votes = candidate_Votes candidate,
                  answer_Answer = candidate_Answers candidate ! i\<rparr>]])
      else Inl (IndexOutOfRange i (length (candidate_Answers candidate))))"

fun answers_loop :: "document list \<Rightarrow> Answer list list \<Rightarrow> Answer list list step" where
  "answers_loop [] answers = Next answers"
| "answers_loop (d # cur) answers =
     (case Decode_Candidate d of
        None \<Rightarrow> Stop (NewErrorResponse ''Could not decode into candidate'')
      | Some candidate \<Rightarrow>
          (case question_loop candidate [0..<questionCount] answers of
             Inl p \<Rightarrow> Crash p
           | Inr answers' \<Rightarrow> answers_loop cur answers'))"

definition GetAnswers :: "environment \<Rightarrow> handler" where
  "GetAnswers env r db =
     (case ctx r ''branch'' of
        None \<Rightarrow> Panic InterfaceConversion
      | Some branch \<Rightarrow>
          (case Find env db branch Unsorted of
             Inl _ \<Rightarrow> Done (render_Render r (NewErrorResponse ''Could not get cursor from db'')) db
           | Inr cur \<Rightarrow>
               (case answers_loop cur (replicate questionCount []) of
                  Stop v \<Rightarrow> Done (render_Render r v) db
                | Crash p \<Rightarrow> Panic p
                | Next answers \<Rightarrow>
                    Done (render_Render r (NewResponseSuccess (AnyMap
                      [(''answers'', AnswerBuckets
                          (map (\<lambda>i. randomize (rand_draw env i) (answers ! i))
                             [0..<questionCount]))]))) db)))"

fun leaderboard_loop ::
  "document list \<Rightarrow> LeaderboardEntry list \<Rightarrow> LeaderboardEntry list step" where
  "leaderboard_loop [] leaderboardEntries = Next leaderboardEntries"
| "leaderboard_loop (d # cur) leaderboardEntries =
     (case Decode_LeaderboardEntry d of
        None \<Rightarrow> Stop (NewErrorResponse ''Could not decode into leaderboard entry'')
      | Some leaderboardEntry \<Rightarrow>
          leaderboard_loop cur (leaderboardEntries @ [leaderboardEntry]))"

definition GetLeaderboard :: "environment \<Rightarrow> handler" where
  "GetLeaderboard env r db =
     (case ctx r ''branch'' of
        None \<Rightarrow> Panic InterfaceConversion
      | Some branch \<Rightarrow>
          (case Find env db branch (Sort ''votes'' (- 1)) of
             Inl _ \<Rightarrow> Done (render_Render r (NewErrorResponse ''Could not get cursor from db'')) db
           | Inr cur \<Rightarrow>
               (case leaderboard_loop cur [] of
                  Stop v \<Rightarrow> Done (render_Render r v) db
                | Crash p \<Rightarrow> Panic p
                | Next leaderboardEntries \<Rightarrow>
                    Done (render_Render r (NewResponseSuccess (AnyMap
                      [(''leaderboard'', LeaderboardEntries leaderboardEntries)]))) db)))"

fun candidates_loop :: "document list \<Rightarrow> Candidate list \<Rightarrow> Candidate list step" where
  "candidates_loop [] candidates = Next candidates"
| "candidates_loop (d # cur) candidates =
     (case Decode_Candidate d of
        None \<Rightarrow> Stop (NewErrorResponse ''Could not decode into candidate'')
      | Some candidate \<Rightarrow> candidates_loop cur (candidates @ [candidate]))"

definition GetCandidates :: "environment \<Rightarrow> handler" where
  "GetCandidates env r db =
     (case ctx r ''branch'' of
        None \<Rightarrow> Panic InterfaceConversion
      | Some branch \<Rightarrow>
          (case Find env db branch Unsorted of
             Inl _ \<Rightarrow> Done (render_Render r (NewErrorResponse ''Could not get cursor from db'')) db
           | Inr cur \<Rightarrow>
               (case candidates_loop cur [] of
                  Stop v \<Rightarrow> Done (render_Render r v) db
                | Crash p \<Rightarrow> Panic p
                | Next candidates \<Rightarrow>
                    Done (render_Render r (NewResponseSuccess (AnyMap
                      [(''candidates'',
                        Candidates (randomize (rand_draw env 0) candidates))]))) db)))"

definition GetQuestions :: handler where
  "GetQuestions r db = Done (render_Render r (NewErrorResponse ''Not implemented'')) db"

section \<open>A concrete environment\<close>

text \<open>
  The identifier format of the driver: 24 hexadecimal digits, two for each of the 12
  bytes. Used to run the handlers on concrete requests.
\<close>

fun hex_digit :: "char \<Rightarrow> nat option" where
  "hex_digit c =
     (let n = (of_char c :: nat) in
      if 48 \<le> n \<and> n \<le> 57 then Some (n - 48)
      else if 97 \<le> n \<and> n \<le> 102 then Some (n - 87)
      else if 65 \<le> n \<and> n \<le> 70 then Some (n - 55)
      else None)"

fun hex_bytes :: "string \<Rightarrow> ObjectID option" where
  "hex_bytes [] = Some []"
| "hex_bytes [c] = None"
| "hex_bytes (c1 # c2 # cs) =
     (case (hex_digit c1, hex_digit c2, hex_bytes cs) of
        (Some h, Some l, Some bs) \<Rightarrow> Some (of_nat (16 * h + l) # bs)
      | _ \<Rightarrow> None)"

definition hex_ObjectID :: "string \<Rightarrow> ObjectID option" where
  "hex_ObjectID s = (if length s \<noteq> 24 then None else hex_bytes s)"

definition no_draw :: "nat \<Rightarrow> nat \<Rightarrow> nat" where
  "no_draw k i = 0"

definition working_store :: "ObjectID \<Rightarrow> environment" where
  "working_store oid =
     \<lparr>ObjectIDFromHex = hex_ObjectID, find_outcome = Completes, insert_fails = False,
      update_fails = False, generated_id = oid, rand_draw = no_draw\<rparr>"

definition empty_db :: database where
  "empty_db coll = []"

definition no_params :: "string \<Rightarrow> string option" where
  "no_params key = None"

definition branch_request :: "string \<Rightarrow> decode \<Rightarrow> request" where
  "branch_request branch b =
     \<lparr>url_params = no_params(''branch'' \<mapsto> branch), ctx = no_params(''branch'' \<mapsto> branch),
      status_ctx = None, body = b\<rparr>"

definition vote_request :: "string \<Rightarrow> string \<Rightarrow> request" where
  "vote_request branch hex =
     \<lparr>url_params = no_params(''branch'' \<mapsto> branch, ''id'' \<mapsto> hex),
      ctx = no_params(''branch'' \<mapsto> branch), status_ctx = None,
      body = DecodeFailed ''EOF'' \<lparr>request_Name = [], request_Answers = None\<rparr>\<rparr>"

definition incoming_request :: "string \<Rightarrow> string \<Rightarrow> request" where
  "incoming_request branch hex =
     \<lparr>url_params = no_params(''branch'' \<mapsto> branch, ''id'' \<mapsto> hex),
      ctx = no_params, status_ctx = None,
      body = DecodeFailed ''EOF'' \<lparr>request_Name = [], request_Answers = None\<rparr>\<rparr>"

definition alice :: document where
  "alice = \<lparr>doc_id = [0, 0, 0, 0, 0, 0, 0, 0, 0, 0, 0, 1], doc_name = ''Alice'',
            doc_answers = Some [''a'', ''b'', ''c'', ''d''], doc_votes = 0\<rparr>"

definition bob :: document where
  "bob = \<lparr>doc_id = [0, 0, 0, 0, 0, 0, 0, 0, 0, 0, 0, 2], doc_name = ''Bob'',
          doc_answers = Some [''w'', ''x'', ''y'', ''z''], doc_votes = 2\<rparr>"

definition sample_db :: database where
  "sample_db = empty_db(''senate'' := [alice, bob])"

definition failing_store :: "ObjectID \<Rightarrow> environment" where
  "failing_store oid =
     \<lparr>ObjectIDFromHex = hex_ObjectID, find_outcome = FindFails, insert_fails = True,
      update_fails = True, generated_id = oid, rand_draw = no_draw\<rparr>"

definition get_request :: "string \<Rightarrow> request" where
  "get_request branch =
     branch_request branch
       (DecodeFailed ''EOF'' \<lparr>request_Name = [], request_Answers = None\<rparr>)"

definition dave :: document where
  "dave = \<lparr>doc_id = [0, 0, 0, 0, 0, 0, 0, 0, 0, 0, 0, 4], doc_name = ''Dave'',
           doc_answers = Some [''p'', ''q''], doc_votes = 1\<rparr>"

definition erin :: document where
  "erin = \<lparr>doc_id = [0, 0, 0, 0, 0, 0, 0, 0, 0, 0, 0, 5], doc_name = ''Erin'',
           doc_answers = Some [''e'', ''f'', ''g'', ''h''], doc_votes = 2147483648\<rparr>"

text \<open>
  A store whose cursor fails after \<open>n\<close> documents, and a collection of 102 candidates
  without votes: one more than the 101 documents of the first batch of a cursor.
\<close>

definition interrupted_store :: "nat \<Rightarrow> environment" where
  "interrupted_store n =
     \<lparr>ObjectIDFromHex = hex_ObjectID, find_outcome = NextFails n, insert_fails = False,
      update_fails = False, generated_id = [], rand_draw = no_draw\<rparr>"

definition voter :: "nat \<Rightarrow> document" where
  "voter i = \<lparr>doc_id = [0, 0, 0, 0, 0, 0, 0, 0, 0, 0, 1, of_nat i], doc_name = ''Voter'',
              doc_answers = Some [''a'', ''b'', ''c'', ''d''], doc_votes = 0\<rparr>"

definition voter_entry :: "nat \<Rightarrow> LeaderboardEntry" where
  "voter_entry i = \<lparr>entry_Id = [0, 0, 0, 0, 0, 0, 0, 0, 0, 0, 1, of_nat i],
                    entry_Name = ''Voter'', entry_Votes = 0\<rparr>"

definition crowd :: "document list" where
  "crowd = map voter [0..<102]"

section \<open>Candidate input validation\<close>

lemma range_Answers_eq:
  "range_Answers answers =
     (if \<exists>answer \<in> set answers. length answer > AnswerMaxLength
      then Some ErrAnswersTooLong else None)"
  by (induction answers) auto

text \<open>
  C2. A decoded submission is checked in a fixed order. An empty name gives the fail
  envelope with \<open>missing name\<close> under the key \<open>name\<close>, whatever the answers are. With a
  name, a nil answers slice gives \<open>missing answers\<close> under the key \<open>answers\<close>, while an
  empty slice is not missing. With a name and answers, one answer of more than 280 bytes
  (so every answer of more than 280 characters) gives \<open>one or more answers are too long\<close>
  under the key \<open>answers\<close>. Each time the envelope has status fail and the database is
  returned as it was.
\<close>

theorem validation_order:
  "body r = Decoded d \<Longrightarrow>
   (request_Name d = [] \<longrightarrow>
      PostCandidates env r db =
        Done (render_Render r (Response Fail (StringMap [(''name'', ''missing name'')]))) db) \<and>
   (request_Name d \<noteq> [] \<and> request_Answers d = None \<longrightarrow>
      PostCandidates env r db =
        Done (render_Render r (Response Fail (StringMap [(''answers'', ''missing answers'')]))) db) \<and>
   (request_Name d \<noteq> [] \<and> request_Answers d = Some [] \<longrightarrow>
      CandidateRequest_Bind d = None) \<and>
   (request_Name d \<noteq> [] \<and> request_Answers d = Some answers \<and>
      (\<exists>answer \<in> set answers. length answer > 280) \<longrightarrow>
      PostCandidates env r db =
        Done (render_Render r (Response Fail (StringMap
          [(''answers'', ''one or more answers are too long'')]))) db)"
  by (auto simp: PostCandidates_def render_Bind_def CandidateRequest_Bind_def errors_Is_def
      range_Answers_eq AnswerMaxLength_def NewResponseFail_def)

theorem validation_order_witness:
  "PostCandidates (working_store [])
     (branch_request ''senate''
        (Decoded \<lparr>request_Name = [], request_Answers = Some [replicate 281 CHR ''a'']\<rparr>))
     empty_db =
     Done \<lparr>code = 200, payload = Response Fail (StringMap [(''name'', ''missing name'')])\<rparr>
       empty_db \<and>
   PostCandidates (working_store [])
     (branch_request ''senate'' (Decoded \<lparr>request_Name = ''Alice'', request_Answers = None\<rparr>))
     empty_db =
     Done \<lparr>code = 200, payload = Response Fail (StringMap [(''answers'', ''missing answers'')])\<rparr>
       empty_db \<and>
   CandidateRequest_Bind \<lparr>request_Name = ''Alice'', request_Answers = Some []\<rparr> = None \<and>
   PostCandidates (working_store [])
     (branch_request ''senate''
        (Decoded \<lparr>request_Name = ''Alice'',
                  request_Answers = Some [''a'', replicate 281 CHR ''a'']\<rparr>))
     empty_db =
     Done \<lparr>code = 200, payload = Response Fail (StringMap
            [(''answers'', ''one or more answers are too long'')])\<rparr>
       empty_db"
  using
    validation_order [where r = "branch_request ''senate''
        (Decoded \<lparr>request_Name = [], request_Answers = Some [replicate 281 CHR ''a'']\<rparr>)"
      and d = "\<lparr>request_Name = [], request_Answers = Some [replicate 281 CHR ''a'']\<rparr>"
      and env = "working_store []" and db = empty_db]
    validation_order [where r = "branch_request ''senate''
        (Decoded \<lparr>request_Name = ''Alice'', request_Answers = None\<rparr>)"
      and d = "\<lparr>request_Name = ''Alice'', request_Answers = None\<rparr>"
      and env = "working_store []" and db = empty_db]
    validation_order [where r = "branch_request ''senate''
        (Decoded \<lparr>request_Name = ''Alice'', request_Answers = Some []\<rparr>)"
      and d = "\<lparr>request_Name = ''Alice'', request_Answers = Some []\<rparr>"
      and env = "working_store []" and db = empty_db]
    validation_order [where r = "branch_request ''senate''
        (Decoded \<lparr>request_Name = ''Alice'',
                  request_Answers = Some [''a'', replicate 281 CHR ''a'']\<rparr>)"
      and d = "\<lparr>request_Name = ''Alice'',
                  request_Answers = Some [''a'', replicate 281 CHR ''a'']\<rparr>"
      and answers = "[''a'', replicate 281 CHR ''a'']"
      and env = "working_store []" and db = empty_db]
  by (simp add: branch_request_def render_Render_def StatusOK_def)

section \<open>Branch resolver\<close>

text \<open>
  C3. When the \<open>branch\<close> path parameter is neither \<open>senate\<close> nor \<open>treasury\<close>, the
  middleware answers with a fail envelope whose message quotes the parameter, leaves the
  database alone and gives the same result for every downstream handler: the handler is
  not run. For the two allowed values the result is that of the downstream handler on
  the request whose context maps \<open>branch\<close> to the parameter.
\<close>

theorem branch_resolver:
  \<open>(URLParam r ''branch'' \<noteq> ''senate'' \<and> URLParam r ''branch'' \<noteq> ''treasury'' \<longrightarrow>
      BranchCtx next r db =
        Done (render_Render r (Response Fail (StringMap
          [(''message'', ''Invalid branch "'' @ URLParam r ''branch'' @
               ''"; must be either "senate" or "treasury"'')]))) db \<and>
      BranchCtx next r db = BranchCtx next' r db) \<and>
   (URLParam r ''branch'' = ''senate'' \<or> URLParam r ''branch'' = ''treasury'' \<longrightarrow>
      BranchCtx next r db =
        next (r\<lparr>ctx := (ctx r)(''branch'' \<mapsto> URLParam r ''branch'')\<rparr>) db)\<close>
  by (auto simp: BranchCtx_def NewResponseFail_def Let_def)

theorem branch_resolver_witness:
  \<open>BranchCtx (PatchVotes (working_store []))
     (incoming_request ''judiciary'' ''000000000000000000000001'') sample_db =
     Done \<lparr>code = 200, payload = Response Fail (StringMap
       [(''message'',
         ''Invalid branch "judiciary"; must be either "senate" or "treasury"'')])\<rparr> sample_db \<and>
   BranchCtx (PatchVotes (working_store []))
     (incoming_request ''senate'' ''000000000000000000000001'') sample_db =
     PatchVotes (working_store [])
       (vote_request ''senate'' ''000000000000000000000001'') sample_db\<close>
  using
    branch_resolver [of "incoming_request ''judiciary'' ''000000000000000000000001''"
      "PatchVotes (working_store [])" sample_db]
    branch_resolver [of "incoming_request ''senate'' ''000000000000000000000001''"
      "PatchVotes (working_store [])" sample_db]
  by (simp add: URLParam_def incoming_request_def vote_request_def render_Render_def
      StatusOK_def)

section \<open>Increment vote\<close>

text \<open>
  C5. When the \<open>id\<close> path parameter is not an identifier for the driver, the handler
  answers with the error envelope (status error, not fail) carrying
  \<open>Could not get ObjectID\<close>, and the database is returned as it was.
\<close>

theorem malformed_id:
  "ObjectIDFromHex env (URLParam r ''id'') = None \<Longrightarrow>
   PatchVotes env r db =
     Done (render_Render r (ErrorResponse Error ''Could not get ObjectID'')) db"
  by (simp add: PatchVotes_def NewErrorResponse_def)

theorem malformed_id_witness:
  "ObjectIDFromHex (working_store []) (URLParam (vote_request ''senate'' ''not-an-id'') ''id'')
     = None \<and>
   PatchVotes (working_store []) (vote_request ''senate'' ''not-an-id'') sample_db =
     Done \<lparr>code = 200, payload = ErrorResponse Error ''Could not get ObjectID''\<rparr> sample_db"
proof -
  have h: "ObjectIDFromHex (working_store [])
             (URLParam (vote_request ''senate'' ''not-an-id'') ''id'') = None"
    by (simp add: working_store_def URLParam_def vote_request_def hex_ObjectID_def)
  show ?thesis
    using h malformed_id [OF h, of sample_db]
    by (simp add: render_Render_def vote_request_def StatusOK_def)
qed

lemma inc_first_absent: "oid \<notin> doc_id ` set ds \<Longrightarrow> inc_first oid n ds = ds"
  by (induction ds) auto

lemma inc_first_present:
  "oid \<in> doc_id ` set ds \<Longrightarrow>
   \<exists>pre d post. ds = pre @ d # post \<and> doc_id d = oid \<and> oid \<notin> doc_id ` set pre \<and>
     inc_first oid n ds = pre @ d\<lparr>doc_votes := doc_votes d + n\<rparr> # post"
proof (induction ds)
  case Nil
  then show ?case by simp
next
  case (Cons a ds)
  show ?case
  proof (cases "doc_id a = oid")
    case True
    then have "a # ds = [] @ a # ds \<and> doc_id a = oid \<and> oid \<notin> doc_id ` set [] \<and>
      inc_first oid n (a # ds) = [] @ a\<lparr>doc_votes := doc_votes a + n\<rparr> # ds"
      by simp
    then show ?thesis by blast
  next
    case False
    with Cons.prems have "oid \<in> doc_id ` set ds" by auto
    from Cons.IH [OF this] obtain pre d post where
      h: "ds = pre @ d # post" "doc_id d = oid" "oid \<notin> doc_id ` set pre"
         "inc_first oid n ds = pre @ d\<lparr>doc_votes := doc_votes d + n\<rparr> # post"
      by blast
    from h False have "a # ds = (a # pre) @ d # post \<and> doc_id d = oid \<and>
      oid \<notin> doc_id ` set (a # pre) \<and>
      inc_first oid n (a # ds) = (a # pre) @ d\<lparr>doc_votes := doc_votes d + n\<rparr> # post"
      by auto
    then show ?thesis by blast
  qed
qed

lemma increment_vote_store_failure:
  "ObjectIDFromHex env (URLParam r ''id'') = Some oid \<Longrightarrow>
   ctx r ''branch'' = Some branch \<Longrightarrow>
   update_fails env \<Longrightarrow>
   PatchVotes env r db =
     Done (render_Render r (ErrorResponse Error ''Could not increment votes'')) db"
  by (simp add: PatchVotes_def NewErrorResponse_def)

text \<open>
  C4. For an id the driver accepts, on a request that carries its branch, and when the
  store reports no failure of the update: the handler answers with the success envelope
  with null data, after one \<^verbatim>\<open>UpdateOne\<close> call with the operator \<^verbatim>\<open>$inc\<close> of \<open>votes\<close> by 1.
  Other collections are unchanged. When no document of the collection has the id, the
  database is unchanged. When one has, the first such document has its votes increased
  by exactly 1, its other fields kept, and every other document is unchanged.
\<close>

theorem increment_vote:
  "ObjectIDFromHex env (URLParam r ''id'') = Some oid \<Longrightarrow>
   ctx r ''branch'' = Some branch \<Longrightarrow>
   \<not> update_fails env \<Longrightarrow>
   \<exists>db'. PatchVotes env r db = Done (render_Render r (Response Success Null)) db' \<and>
     (\<forall>coll. coll \<noteq> branch \<longrightarrow> db' coll = db coll) \<and>
     (oid \<notin> doc_id ` set (db branch) \<longrightarrow> db' = db) \<and>
     (oid \<in> doc_id ` set (db branch) \<longrightarrow>
        (\<exists>pre d post. db branch = pre @ d # post \<and> doc_id d = oid \<and>
           oid \<notin> doc_id ` set pre \<and>
           db' branch = pre @ d\<lparr>doc_votes := doc_votes d + 1\<rparr> # post))"
proof -
  assume a: "ObjectIDFromHex env (URLParam r ''id'') = Some oid"
    "ctx r ''branch'' = Some branch" "\<not> update_fails env"
  let ?db' = "db(branch := inc_first oid 1 (db branch))"
  from a have "PatchVotes env r db = Done (render_Render r (Response Success Null)) ?db'"
    by (simp add: PatchVotes_def NewResponseSuccess_def)
  moreover have "\<forall>coll. coll \<noteq> branch \<longrightarrow> ?db' coll = db coll"
    by simp
  moreover have "oid \<notin> doc_id ` set (db branch) \<longrightarrow> ?db' = db"
    by (simp add: inc_first_absent)
  moreover have "oid \<in> doc_id ` set (db branch) \<longrightarrow>
        (\<exists>pre d post. db branch = pre @ d # post \<and> doc_id d = oid \<and>
           oid \<notin> doc_id ` set pre \<and>
           ?db' branch = pre @ d\<lparr>doc_votes := doc_votes d + 1\<rparr> # post)"
    using inc_first_present [of oid "db branch" 1] by simp
  ultimately show ?thesis by blast
qed

theorem increment_vote_witness:
  "ObjectIDFromHex (working_store [])
     (URLParam (vote_request ''senate'' ''000000000000000000000001'') ''id'')
     = Some [0, 0, 0, 0, 0, 0, 0, 0, 0, 0, 0, 1] \<and>
   ctx (vote_request ''senate'' ''000000000000000000000001'') ''branch'' = Some ''senate'' \<and>
   \<not> update_fails (working_store []) \<and>
   PatchVotes (working_store []) (vote_request ''senate'' ''000000000000000000000001'') sample_db =
     Done \<lparr>code = 200, payload = Response Success Null\<rparr>
       (empty_db(''senate'' := [alice\<lparr>doc_votes := 1\<rparr>, bob]))"
proof -
  have h1: "ObjectIDFromHex (working_store [])
     (URLParam (vote_request ''senate'' ''000000000000000000000001'') ''id'')
     = Some [0, 0, 0, 0, 0, 0, 0, 0, 0, 0, 0, 1]"
    by (simp add: working_store_def URLParam_def vote_request_def hex_ObjectID_def)
  have h2: "ctx (vote_request ''senate'' ''000000000000000000000001'') ''branch'' = Some ''senate''"
    by (simp add: vote_request_def)
  have h3: "\<not> update_fails (working_store [])"
    by (simp add: working_store_def)
  from increment_vote [OF h1 h2 h3, of sample_db] obtain db' where
    r: "PatchVotes (working_store []) (vote_request ''senate'' ''000000000000000000000001'')
          sample_db =
        Done (render_Render (vote_request ''senate'' ''000000000000000000000001'')
          (Response Success Null)) db'"
    by blast
  have "PatchVotes (working_store []) (vote_request ''senate'' ''000000000000000000000001'')
          sample_db = Done \<lparr>code = 200, payload = Response Success Null\<rparr>
       (empty_db(''senate'' := [alice\<lparr>doc_votes := 1\<rparr>, bob]))"
    using h1 h2 h3
    by (simp add: PatchVotes_def sample_db_def alice_def bob_def render_Render_def
        NewResponseSuccess_def StatusOK_def vote_request_def)
  with h1 h2 h3 r show ?thesis by simp
qed

section \<open>Create candidate\<close>

text \<open>
  C7. For a decoded submission that \<^verbatim>\<open>Bind\<close> accepts, on a request that carries its
  branch: when the insert succeeds, the collection of the branch gains exactly one
  document, with the generated id, the submitted name and answers and votes 0, no other
  collection changes, and the answer is the success envelope with null data and status
  201; when the store reports a failure of the insert, the answer is the error envelope
  with the status the request had (200 unless one was set) and the database is returned
  as it was.
\<close>

theorem create_candidate:
  "body r = Decoded d \<Longrightarrow>
   CandidateRequest_Bind d = None \<Longrightarrow>
   ctx r ''branch'' = Some branch \<Longrightarrow>
   (\<not> insert_fails env \<longrightarrow>
      PostCandidates env r db =
        Done \<lparr>code = 201, payload = Response Success Null\<rparr>
          (db(branch := db branch @
             [\<lparr>doc_id = generated_id env, doc_name = request_Name d,
               doc_answers = request_Answers d, doc_votes = 0\<rparr>]))) \<and>
   (insert_fails env \<longrightarrow>
      PostCandidates env r db =
        Done \<lparr>code = (case status_ctx r of None \<Rightarrow> 200 | Some s \<Rightarrow> s),
              payload = ErrorResponse Error
                ''There was an error adding the candidate to the database.''\<rparr> db)"
  by (simp add: PostCandidates_def render_Bind_def errors_Is_def InsertOne_def
      render_Render_def render_Status_def NewResponseSuccess_def NewErrorResponse_def
      StatusCreated_def StatusOK_def split: option.split)

theorem create_candidate_witness:
  "PostCandidates (working_store [0, 0, 0, 0, 0, 0, 0, 0, 0, 0, 0, 3])
     (branch_request ''senate''
        (Decoded \<lparr>request_Name = ''Alice'', request_Answers = Some [''a'', ''b'', ''c'', ''d'']\<rparr>))
     sample_db =
     Done \<lparr>code = 201, payload = Response Success Null\<rparr>
       (empty_db(''senate'' := [alice, bob,
          \<lparr>doc_id = [0, 0, 0, 0, 0, 0, 0, 0, 0, 0, 0, 3], doc_name = ''Alice'',
            doc_answers = Some [''a'', ''b'', ''c'', ''d''], doc_votes = 0\<rparr>])) \<and>
   PostCandidates (failing_store [0, 0, 0, 0, 0, 0, 0, 0, 0, 0, 0, 3])
     (branch_request ''senate''
        (Decoded \<lparr>request_Name = ''Alice'', request_Answers = Some [''a'', ''b'', ''c'', ''d'']\<rparr>))
     sample_db =
     Done \<lparr>code = 200, payload = ErrorResponse Error
            ''There was an error adding the candidate to the database.''\<rparr> sample_db"
  using
    create_candidate [where r = "branch_request ''senate''
        (Decoded \<lparr>request_Name = ''Alice'', request_Answers = Some [''a'', ''b'', ''c'', ''d'']\<rparr>)"
      and d = "\<lparr>request_Name = ''Alice'', request_Answers = Some [''a'', ''b'', ''c'', ''d'']\<rparr>"
      and branch = "''senate''" and db = sample_db
      and env = "working_store [0, 0, 0, 0, 0, 0, 0, 0, 0, 0, 0, 3]"]
    create_candidate [where r = "branch_request ''senate''
        (Decoded \<lparr>request_Name = ''Alice'', request_Answers = Some [''a'', ''b'', ''c'', ''d'']\<rparr>)"
      and d = "\<lparr>request_Name = ''Alice'', request_Answers = Some [''a'', ''b'', ''c'', ''d'']\<rparr>"
      and branch = "''senate''" and db = sample_db
      and env = "failing_store [0, 0, 0, 0, 0, 0, 0, 0, 0, 0, 0, 3]"]
  by (simp add: branch_request_def CandidateRequest_Bind_def AnswerMaxLength_def
      working_store_def failing_store_def sample_db_def)

lemma Bind_accepts_iff:
  "CandidateRequest_Bind d = None \<longleftrightarrow>
     request_Name d \<noteq> [] \<and>
     (\<exists>answers. request_Answers d = Some answers \<and>
        (\<forall>answer \<in> set answers. length answer \<le> 280))"
  by (auto simp: CandidateRequest_Bind_def range_Answers_eq AnswerMaxLength_def not_le
      split: option.splits)

text \<open>
  C1 as stated does not hold: \<^verbatim>\<open>Bind\<close> never compares the number of answers with
  \<^const>\<open>questionCount\<close>. A submission with a name and the single answer \<open>only one\<close> is
  accepted and stored with that one answer.
\<close>

theorem stored_answers_length_counterexample:
  "PostCandidates (working_store [0, 0, 0, 0, 0, 0, 0, 0, 0, 0, 0, 3])
     (branch_request ''senate''
        (Decoded \<lparr>request_Name = ''Carol'', request_Answers = Some [''only one'']\<rparr>))
     empty_db =
     Done \<lparr>code = 201, payload = Response Success Null\<rparr>
       (empty_db(''senate'' :=
          [\<lparr>doc_id = [0, 0, 0, 0, 0, 0, 0, 0, 0, 0, 0, 3], doc_name = ''Carol'',
            doc_answers = Some [''only one''], doc_votes = 0\<rparr>])) \<and>
   length [''only one''] \<noteq> questionCount"
  by (simp add: PostCandidates_def render_Bind_def errors_Is_def InsertOne_def
      CandidateRequest_Bind_def AnswerMaxLength_def branch_request_def working_store_def
      render_Render_def render_Status_def NewResponseSuccess_def StatusCreated_def
      empty_db_def questionCount_def)

text \<open>
  C1, amended. For a decoded submission on a request that carries its branch: when
  \<^verbatim>\<open>Bind\<close> accepts it and the insert succeeds, the collection gains one document whose
  answers are the submitted answers unchanged, whatever their number; when \<^verbatim>\<open>Bind\<close>
  rejects it, the database is returned as it was. \<^verbatim>\<open>Bind\<close> accepts exactly the
  submissions with a non-empty name and present answers of at most 280 bytes each.
\<close>

theorem stored_answers_as_submitted:
  "body r = Decoded d \<Longrightarrow>
   ctx r ''branch'' = Some branch \<Longrightarrow>
   (CandidateRequest_Bind d = None \<and> \<not> insert_fails env \<longrightarrow>
      (\<exists>resp doc. PostCandidates env r db = Done resp (db(branch := db branch @ [doc])) \<and>
         doc_answers doc = request_Answers d)) \<and>
   (CandidateRequest_Bind d \<noteq> None \<longrightarrow> (\<exists>resp. PostCandidates env r db = Done resp db)) \<and>
   (CandidateRequest_Bind d = None \<longleftrightarrow>
      request_Name d \<noteq> [] \<and>
      (\<exists>answers. request_Answers d = Some answers \<and>
         (\<forall>answer \<in> set answers. length answer \<le> 280)))"
proof -
  assume a: "body r = Decoded d" "ctx r ''branch'' = Some branch"
  let ?doc = "\<lparr>doc_id = generated_id env, doc_name = request_Name d,
               doc_answers = request_Answers d, doc_votes = 0\<rparr>"
  have "CandidateRequest_Bind d = None \<and> \<not> insert_fails env \<longrightarrow>
      PostCandidates env r db =
        Done (render_Render (render_Status r StatusCreated) (NewResponseSuccess Null))
          (db(branch := db branch @ [?doc])) \<and> doc_answers ?doc = request_Answers d"
    using a by (simp add: PostCandidates_def render_Bind_def errors_Is_def InsertOne_def)
  moreover have "CandidateRequest_Bind d \<noteq> None \<longrightarrow>
      (\<exists>resp. PostCandidates env r db = Done resp db)"
    using a
    by (auto simp: PostCandidates_def render_Bind_def errors_Is_def CandidateRequest_Bind_def
        range_Answers_eq split: option.splits if_splits)
  ultimately show ?thesis
    using Bind_accepts_iff [of d] by blast
qed

theorem stored_answers_as_submitted_witness:
  "(\<exists>resp doc.
      PostCandidates (working_store [0, 0, 0, 0, 0, 0, 0, 0, 0, 0, 0, 3])
        (branch_request ''senate''
           (Decoded \<lparr>request_Name = ''Carol'', request_Answers = Some [''x'', ''y'']\<rparr>))
        sample_db = Done resp (sample_db(''senate'' := sample_db ''senate'' @ [doc])) \<and>
      doc_answers doc = Some [''x'', ''y'']) \<and>
   (\<exists>resp.
      PostCandidates (working_store [0, 0, 0, 0, 0, 0, 0, 0, 0, 0, 0, 3])
        (branch_request ''senate''
           (Decoded \<lparr>request_Name = [], request_Answers = Some [''x'', ''y'']\<rparr>))
        sample_db = Done resp sample_db)"
  using
    stored_answers_as_submitted [where r = "branch_request ''senate''
           (Decoded \<lparr>request_Name = ''Carol'', request_Answers = Some [''x'', ''y'']\<rparr>)"
      and d = "\<lparr>request_Name = ''Carol'', request_Answers = Some [''x'', ''y'']\<rparr>"
      and branch = "''senate''" and db = sample_db
      and env = "working_store [0, 0, 0, 0, 0, 0, 0, 0, 0, 0, 0, 3]"]
    stored_answers_as_submitted [where r = "branch_request ''senate''
           (Decoded \<lparr>request_Name = [], request_Answers = Some [''x'', ''y'']\<rparr>)"
      and d = "\<lparr>request_Name = [], request_Answers = Some [''x'', ''y'']\<rparr>"
      and branch = "''senate''" and db = sample_db
      and env = "working_store [0, 0, 0, 0, 0, 0, 0, 0, 0, 0, 0, 3]"]
  by (simp add: branch_request_def working_store_def)

text \<open>
  C9 as stated does not hold for every failed binding: the document is built from the
  request value as the decoder left it, which is the zero value only when nothing was
  decoded. For the body \<^verbatim>\<open>{"name": "Bob", "answers": 7}\<close> the JSON decoder stores the name,
  skips the ill-typed field and returns a type error; the inserted document is named
  \<open>Bob\<close>.
\<close>

theorem bind_failure_document_counterexample:
  "PostCandidates (working_store [0, 0, 0, 0, 0, 0, 0, 0, 0, 0, 0, 3])
     (branch_request ''senate''
        (DecodeFailed
           ''json: cannot unmarshal number into Go struct field CandidateRequest.answers of type []string''
           \<lparr>request_Name = ''Bob'', request_Answers = None\<rparr>))
     empty_db =
     Done \<lparr>code = 201, payload = Response Success Null\<rparr>
       (empty_db(''senate'' :=
          [\<lparr>doc_id = [0, 0, 0, 0, 0, 0, 0, 0, 0, 0, 0, 3], doc_name = ''Bob'',
            doc_answers = None, doc_votes = 0\<rparr>])) \<and>
   ''Bob'' \<noteq> []"
  by (simp add: PostCandidates_def render_Bind_def errors_Is_def InsertOne_def
      branch_request_def working_store_def render_Render_def render_Status_def
      NewResponseSuccess_def StatusCreated_def empty_db_def)

text \<open>
  C9, amended. When decoding the body fails (so the error is none of the three of
  \<^verbatim>\<open>Bind\<close>), on a request that carries its branch, the handler does not return early: it
  inserts a document built from the request value as the failed decoding left it (empty
  name and nil answers when nothing was decoded, as for malformed JSON), with votes 0,
  and when the insert succeeds it answers with the success envelope and status 201.
\<close>

theorem bind_failure_falls_through:
  "body r = DecodeFailed message d \<Longrightarrow>
   ctx r ''branch'' = Some branch \<Longrightarrow>
   \<not> insert_fails env \<Longrightarrow>
   PostCandidates env r db =
     Done \<lparr>code = 201, payload = Response Success Null\<rparr>
       (db(branch := db branch @
          [\<lparr>doc_id = generated_id env, doc_name = request_Name d,
            doc_answers = request_Answers d, doc_votes = 0\<rparr>]))"
  by (simp add: PostCandidates_def render_Bind_def errors_Is_def InsertOne_def
      render_Render_def render_Status_def NewResponseSuccess_def
      StatusCreated_def)

theorem bind_failure_falls_through_witness:
  "PostCandidates (working_store [0, 0, 0, 0, 0, 0, 0, 0, 0, 0, 0, 3])
     (branch_request ''treasury''
        (DecodeFailed ''unexpected end of JSON input''
           \<lparr>request_Name = [], request_Answers = None\<rparr>))
     sample_db =
     Done \<lparr>code = 201, payload = Response Success Null\<rparr>
       (sample_db(''treasury'' :=
          [\<lparr>doc_id = [0, 0, 0, 0, 0, 0, 0, 0, 0, 0, 0, 3], doc_name = [],
            doc_answers = None, doc_votes = 0\<rparr>]))"
  using
    bind_failure_falls_through [where r = "branch_request ''treasury''
        (DecodeFailed ''unexpected end of JSON input''
           \<lparr>request_Name = [], request_Answers = None\<rparr>)"
      and message = "''unexpected end of JSON input''"
      and d = "\<lparr>request_Name = [], request_Answers = None\<rparr>"
      and branch = "''treasury''" and db = sample_db
      and env = "working_store [0, 0, 0, 0, 0, 0, 0, 0, 0, 0, 0, 3]"]
  by (simp add: branch_request_def working_store_def sample_db_def empty_db_def)

section \<open>List leaderboard\<close>

lemma sint_fits_int32: "fits_int32 v \<Longrightarrow> sint (word_of_int v :: int32) = v"
  by (simp add: fits_int32_def sint_sbintrunc' signed_take_bit_int_eq_self)

lemma leaderboard_loop_all:
  "\<forall>d \<in> set cur. fits_int32 (doc_votes d) \<Longrightarrow>
   leaderboard_loop cur acc =
     Next (acc @ map (\<lambda>d. \<lparr>entry_Id = doc_id d, entry_Name = doc_name d,
                           entry_Votes = word_of_int (doc_votes d)\<rparr>) cur)"
  by (induction cur arbitrary: acc) (simp_all add: Decode_LeaderboardEntry_def)

lemma leaderboard_loop_fail:
  "\<exists>d \<in> set cur. \<not> fits_int32 (doc_votes d) \<Longrightarrow>
   leaderboard_loop cur acc = Stop (NewErrorResponse ''Could not decode into leaderboard entry'')"
  by (induction cur arbitrary: acc) (auto simp: Decode_LeaderboardEntry_def)

lemma sorted_votes_descending:
  "sorted_wrt (\<lambda>x y. doc_votes y \<le> doc_votes x) (sort_key (\<lambda>d. - doc_votes d) ds)"
  using sorted_sort_key [of "\<lambda>d. - doc_votes d" ds] by (simp add: sorted_map)

lemma Find_completes:
  "\<not> find_fails env \<Longrightarrow> Find env db coll opt = Inr (selected opt (db coll))"
  by (simp add: Find_def find_fails_def)

lemma Find_next_fails:
  "find_outcome env = NextFails n \<Longrightarrow>
   Find env db coll opt = Inr (take n (selected opt (db coll)))"
  by (simp add: Find_def)

lemma leaderboard_of_cursor:
  assumes "ctx r ''branch'' = Some branch"
    and "Find env db branch (Sort ''votes'' (- 1)) = Inr cur"
    and "\<forall>d \<in> set cur. Decode_LeaderboardEntry d \<noteq> None"
  shows "GetLeaderboard env r db =
     Done (render_Render r (Response Success (AnyMap [(''leaderboard'',
       LeaderboardEntries
         (map (\<lambda>d. \<lparr>entry_Id = doc_id d, entry_Name = doc_name d,
                      entry_Votes = word_of_int (doc_votes d)\<rparr>) cur))]))) db"
proof -
  from assms(3) have "\<forall>d \<in> set cur. fits_int32 (doc_votes d)"
    by (auto simp: Decode_LeaderboardEntry_def split: if_splits)
  from leaderboard_loop_all [OF this, of "[]"] assms(1,2) show ?thesis
    by (simp add: GetLeaderboard_def NewResponseSuccess_def)
qed

lemma leaderboard_decode_error:
  assumes "ctx r ''branch'' = Some branch"
    and "Find env db branch (Sort ''votes'' (- 1)) = Inr cur"
    and "\<exists>d \<in> set cur. Decode_LeaderboardEntry d = None"
  shows "GetLeaderboard env r db =
     Done (render_Render r (ErrorResponse Error ''Could not decode into leaderboard entry'')) db"
proof -
  from assms(3) have "\<exists>d \<in> set cur. \<not> fits_int32 (doc_votes d)"
    by (auto simp: Decode_LeaderboardEntry_def split: if_splits)
  from leaderboard_loop_fail [OF this, of "[]"] assms(1,2) show ?thesis
    by (simp add: GetLeaderboard_def NewErrorResponse_def)
qed

text \<open>
  What \<^verbatim>\<open>GetLeaderboard\<close> does with each outcome of the query, on a request that
  carries its branch. When \<^verbatim>\<open>Find\<close> fails the answer is an error envelope. When the
  query runs to completion, a document that does not decode gives an error envelope,
  and otherwise the answer is the success envelope with one entry per stored document,
  with its id, name and votes, in descending order of votes (the order the store gives
  for the sort option \<open>votes: -1\<close>). When \<^verbatim>\<open>cur.Next\<close> fails after \<open>n\<close> documents that
  decode, the answer is the success envelope with the entries of those \<open>n\<close> documents
  only.
\<close>

lemma leaderboard:
  "ctx r ''branch'' = Some branch \<Longrightarrow>
   (find_outcome env = FindFails \<longrightarrow>
      GetLeaderboard env r db =
        Done (render_Render r (ErrorResponse Error ''Could not get cursor from db'')) db) \<and>
   (\<not> find_fails env \<and> (\<exists>d \<in> set (db branch). Decode_LeaderboardEntry d = None) \<longrightarrow>
      GetLeaderboard env r db =
        Done (render_Render r (ErrorResponse Error ''Could not decode into leaderboard entry''))
          db) \<and>
   (\<not> find_fails env \<and> (\<forall>d \<in> set (db branch). Decode_LeaderboardEntry d \<noteq> None) \<longrightarrow>
      (\<exists>entries.
         GetLeaderboard env r db =
           Done (render_Render r (Response Success
             (AnyMap [(''leaderboard'', LeaderboardEntries entries)]))) db \<and>
         mset entries =
           image_mset (\<lambda>d. \<lparr>entry_Id = doc_id d, entry_Name = doc_name d,
                              entry_Votes = word_of_int (doc_votes d)\<rparr>) (mset (db branch)) \<and>
         (\<forall>d \<in> set (db branch). sint (word_of_int (doc_votes d) :: int32) = doc_votes d) \<and>
         sorted_wrt (\<lambda>a b. sint (entry_Votes b) \<le> sint (entry_Votes a)) entries)) \<and>
   (find_outcome env = NextFails n \<and>
    (\<forall>d \<in> set (take n (sort_key (\<lambda>d. - doc_votes d) (db branch))).
        Decode_LeaderboardEntry d \<noteq> None) \<longrightarrow>
      GetLeaderboard env r db =
        Done (render_Render r (Response Success (AnyMap [(''leaderboard'',
          LeaderboardEntries
            (map (\<lambda>d. \<lparr>entry_Id = doc_id d, entry_Name = doc_name d,
                         entry_Votes = word_of_int (doc_votes d)\<rparr>)
               (take n (sort_key (\<lambda>d. - doc_votes d) (db branch)))))]))) db)"
proof -
  assume b: "ctx r ''branch'' = Some branch"
  let ?cur = "sort_key (\<lambda>d. - doc_votes d) (db branch)"
  let ?entry = "\<lambda>d. \<lparr>entry_Id = doc_id d, entry_Name = doc_name d,
                       entry_Votes = word_of_int (doc_votes d) :: int32\<rparr>"
  have c1: "find_outcome env = FindFails \<longrightarrow>
      GetLeaderboard env r db =
        Done (render_Render r (ErrorResponse Error ''Could not get cursor from db'')) db"
    using b by (simp add: GetLeaderboard_def Find_def NewErrorResponse_def)
  have c2: "\<not> find_fails env \<and> (\<exists>d \<in> set (db branch). Decode_LeaderboardEntry d = None) \<longrightarrow>
      GetLeaderboard env r db =
        Done (render_Render r (ErrorResponse Error ''Could not decode into leaderboard entry''))
          db"
  proof
    assume a: "\<not> find_fails env \<and> (\<exists>d \<in> set (db branch). Decode_LeaderboardEntry d = None)"
    then have f: "Find env db branch (Sort ''votes'' (- 1)) = Inr ?cur"
      by (simp add: Find_completes)
    from a have "\<exists>d \<in> set ?cur. Decode_LeaderboardEntry d = None" by simp
    from leaderboard_decode_error [OF b f this]
    show "GetLeaderboard env r db =
        Done (render_Render r (ErrorResponse Error ''Could not decode into leaderboard entry''))
          db" .
  qed
  have c3: "\<not> find_fails env \<and> (\<forall>d \<in> set (db branch). Decode_LeaderboardEntry d \<noteq> None) \<longrightarrow>
      (\<exists>entries.
         GetLeaderboard env r db =
           Done (render_Render r (Response Success
             (AnyMap [(''leaderboard'', LeaderboardEntries entries)]))) db \<and>
         mset entries = image_mset ?entry (mset (db branch)) \<and>
         (\<forall>d \<in> set (db branch). sint (word_of_int (doc_votes d) :: int32) = doc_votes d) \<and>
         sorted_wrt (\<lambda>a b. sint (entry_Votes b) \<le> sint (entry_Votes a)) entries)"
  proof
    assume a: "\<not> find_fails env \<and> (\<forall>d \<in> set (db branch). Decode_LeaderboardEntry d \<noteq> None)"
    then have fits: "\<forall>d \<in> set (db branch). fits_int32 (doc_votes d)"
      by (auto simp: Decode_LeaderboardEntry_def split: if_splits)
    from a have f: "Find env db branch (Sort ''votes'' (- 1)) = Inr ?cur"
      by (simp add: Find_completes)
    from a have "\<forall>d \<in> set ?cur. Decode_LeaderboardEntry d \<noteq> None" by simp
    from leaderboard_of_cursor [OF b f this]
    have run: "GetLeaderboard env r db =
           Done (render_Render r (Response Success
             (AnyMap [(''leaderboard'', LeaderboardEntries (map ?entry ?cur))]))) db" .
    have ms: "mset (map ?entry ?cur) = image_mset ?entry (mset (db branch))"
      by simp
    have votes: "\<forall>d \<in> set (db branch). sint (word_of_int (doc_votes d) :: int32) = doc_votes d"
      using fits by (simp add: sint_fits_int32)
    have "sorted_wrt (\<lambda>x y. sint (entry_Votes (?entry y)) \<le> sint (entry_Votes (?entry x))) ?cur"
      using sorted_votes_descending [of "db branch"] votes
      by (auto intro: sorted_wrt_mono_rel [rotated])
    then have "sorted_wrt (\<lambda>a b. sint (entry_Votes b) \<le> sint (entry_Votes a)) (map ?entry ?cur)"
      by (simp add: sorted_wrt_map)
    with run ms votes show "\<exists>entries.
         GetLeaderboard env r db =
           Done (render_Render r (Response Success
             (AnyMap [(''leaderboard'', LeaderboardEntries entries)]))) db \<and>
         mset entries = image_mset ?entry (mset (db branch)) \<and>
         (\<forall>d \<in> set (db branch). sint (word_of_int (doc_votes d) :: int32) = doc_votes d) \<and>
         sorted_wrt (\<lambda>a b. sint (entry_Votes b) \<le> sint (entry_Votes a)) entries"
      by blast
  qed
  have c4: "find_outcome env = NextFails n \<and>
    (\<forall>d \<in> set (take n ?cur). Decode_LeaderboardEntry d \<noteq> None) \<longrightarrow>
      GetLeaderboard env r db =
        Done (render_Render r (Response Success (AnyMap [(''leaderboard'',
          LeaderboardEntries (map ?entry (take n ?cur)))]))) db"
  proof
    assume a: "find_outcome env = NextFails n \<and>
      (\<forall>d \<in> set (take n ?cur). Decode_LeaderboardEntry d \<noteq> None)"
    then have f: "Find env db branch (Sort ''votes'' (- 1)) = Inr (take n ?cur)"
      by (simp add: Find_next_fails)
    from a have "\<forall>d \<in> set (take n ?cur). Decode_LeaderboardEntry d \<noteq> None" by simp
    from leaderboard_of_cursor [OF b f this]
    show "GetLeaderboard env r db =
        Done (render_Render r (Response Success (AnyMap [(''leaderboard'',
          LeaderboardEntries (map ?entry (take n ?cur)))]))) db" .
  qed
  from c1 c2 c3 c4 show ?thesis by blast
qed

lemma leaderboard_examples:
  "GetLeaderboard (failing_store []) (get_request ''senate'') sample_db =
     Done \<lparr>code = 200, payload = ErrorResponse Error ''Could not get cursor from db''\<rparr>
       sample_db \<and>
   GetLeaderboard (working_store []) (get_request ''senate'')
       (empty_db(''senate'' := [alice, erin])) =
     Done \<lparr>code = 200,
           payload = ErrorResponse Error ''Could not decode into leaderboard entry''\<rparr>
       (empty_db(''senate'' := [alice, erin])) \<and>
   GetLeaderboard (working_store []) (get_request ''senate'') sample_db =
     Done \<lparr>code = 200, payload = Response Success (AnyMap [(''leaderboard'',
       LeaderboardEntries
         [\<lparr>entry_Id = [0, 0, 0, 0, 0, 0, 0, 0, 0, 0, 0, 2], entry_Name = ''Bob'',
            entry_Votes = 2\<rparr>,
          \<lparr>entry_Id = [0, 0, 0, 0, 0, 0, 0, 0, 0, 0, 0, 1], entry_Name = ''Alice'',
            entry_Votes = 0\<rparr>])])\<rparr> sample_db"
proof -
  have b: "ctx (get_request ''senate'') ''branch'' = Some ''senate''"
    by (simp add: get_request_def branch_request_def)
  have c1: "GetLeaderboard (failing_store []) (get_request ''senate'') sample_db =
     Done \<lparr>code = 200, payload = ErrorResponse Error ''Could not get cursor from db''\<rparr>
       sample_db"
    using leaderboard [OF b, of "failing_store []" sample_db]
    by (simp add: failing_store_def render_Render_def get_request_def branch_request_def
        StatusOK_def)
  have c2: "GetLeaderboard (working_store []) (get_request ''senate'')
       (empty_db(''senate'' := [alice, erin])) =
     Done \<lparr>code = 200,
           payload = ErrorResponse Error ''Could not decode into leaderboard entry''\<rparr>
       (empty_db(''senate'' := [alice, erin]))"
    using leaderboard [OF b, of "working_store []" "empty_db(''senate'' := [alice, erin])"]
    by (simp add: working_store_def find_fails_def render_Render_def get_request_def
        branch_request_def StatusOK_def Decode_LeaderboardEntry_def fits_int32_def erin_def)
  have c3: "GetLeaderboard (working_store []) (get_request ''senate'') sample_db =
     Done \<lparr>code = 200, payload = Response Success (AnyMap [(''leaderboard'',
       LeaderboardEntries
         [\<lparr>entry_Id = [0, 0, 0, 0, 0, 0, 0, 0, 0, 0, 0, 2], entry_Name = ''Bob'',
            entry_Votes = 2\<rparr>,
          \<lparr>entry_Id = [0, 0, 0, 0, 0, 0, 0, 0, 0, 0, 0, 1], entry_Name = ''Alice'',
            entry_Votes = 0\<rparr>])])\<rparr> sample_db"
    by (simp add: GetLeaderboard_def Find_def working_store_def get_request_def
        branch_request_def sample_db_def alice_def bob_def Decode_LeaderboardEntry_def
        fits_int32_def render_Render_def NewResponseSuccess_def StatusOK_def)
  from c1 c2 c3 show ?thesis by simp
qed

lemma sort_voters: "sort_key (\<lambda>d. - doc_votes d) (map voter is) = map voter is"
proof (rule sort_key_id_if_sorted)
  show "sorted (map (\<lambda>d. - doc_votes d) (map voter is))"
    by (induction "is") (simp_all add: voter_def)
qed

text \<open>
  C8. A store failure must give an error envelope, and the leaderboard must hold one
  entry per candidate. \<^verbatim>\<open>GetLeaderboard\<close> checks the error of \<^verbatim>\<open>Find\<close> and the error of
  each \<^verbatim>\<open>cur.Decode\<close>, but after the loop \<^verbatim>\<open>for cur.Next(ctx)\<close> it never reads
  \<^verbatim>\<open>cur.Err\<close>. With 102 stored candidates and a store that delivers the first batch of
  101 documents and then fails, the handler answers with the success envelope and
  status 200, and the leaderboard holds 101 entries: no error envelope for the store
  failure, and no entry for one candidate.
\<close>

theorem leaderboard_cursor_error:
  "find_outcome (interrupted_store 101) = NextFails 101 \<and>
   length crowd = 102 \<and>
   GetLeaderboard (interrupted_store 101) (get_request ''senate'')
       (empty_db(''senate'' := crowd)) =
     Done \<lparr>code = 200, payload = Response Success (AnyMap [(''leaderboard'',
       LeaderboardEntries (map voter_entry [0..<101]))])\<rparr>
       (empty_db(''senate'' := crowd))"
proof -
  have b: "ctx (get_request ''senate'') ''branch'' = Some ''senate''"
    by (simp add: get_request_def branch_request_def)
  have o: "find_outcome (interrupted_store 101) = NextFails 101"
    by (simp add: interrupted_store_def)
  have cur: "take 101 (sort_key (\<lambda>d. - doc_votes d) crowd) = map voter [0..<101]"
    by (simp add: crowd_def sort_voters take_map)
  have dec: "\<forall>d \<in> set (take 101 (sort_key (\<lambda>d. - doc_votes d)
               ((empty_db(''senate'' := crowd)) ''senate''))).
             Decode_LeaderboardEntry d \<noteq> None"
    by (simp add: cur Decode_LeaderboardEntry_def fits_int32_def voter_def)
  have entries: "(\<lambda>d. \<lparr>entry_Id = doc_id d, entry_Name = doc_name d,
                       entry_Votes = word_of_int (doc_votes d)\<rparr>) \<circ> voter = voter_entry"
    by (rule ext) (simp add: voter_def voter_entry_def)
  from leaderboard [OF b, of "interrupted_store 101" "empty_db(''senate'' := crowd)" 101] o dec
  have "GetLeaderboard (interrupted_store 101) (get_request ''senate'')
       (empty_db(''senate'' := crowd)) =
     Done (render_Render (get_request ''senate'') (Response Success (AnyMap [(''leaderboard'',
       LeaderboardEntries (map voter_entry [0..<101]))])))
       (empty_db(''senate'' := crowd))"
    by (simp add: cur entries)
  then show ?thesis
    using o by (simp add: crowd_def render_Render_def get_request_def branch_request_def
        StatusOK_def)
qed

section \<open>List answers\<close>

lemma upt_questionCount: "[0..<questionCount] = [0, 1, 2, 3]"
  by (simp add: questionCount_def upt_rec)

lemma replicate_questionCount: "replicate questionCount x = [x, x, x, x]"
  by (simp add: questionCount_def numeral_eq_Suc)

lemma question_loop_ok:
  "length answers = 4 \<Longrightarrow> 4 \<le> length (candidate_Answers c) \<Longrightarrow>
   question_loop c [0, 1, 2, 3] answers =
     Inr (map (\<lambda>i. answers ! i @
            [\<lparr>answer_Id = candidate_Id c, answer_Name = candidate_Name c,
              answer_Votes = candidate_Votes c, answer_Answer = candidate_Answers c ! i\<rparr>])
          [0, 1, 2, 3])"
  by (auto simp: numeral_eq_Suc length_Suc_conv)

lemma question_loop_short:
  "length (candidate_Answers c) < 4 \<Longrightarrow>
   question_loop c [0, 1, 2, 3] answers =
     Inl (IndexOutOfRange (length (candidate_Answers c)) (length (candidate_Answers c)))"
proof -
  assume "length (candidate_Answers c) < 4"
  then consider "length (candidate_Answers c) = 0" | "length (candidate_Answers c) = 1"
    | "length (candidate_Answers c) = 2" | "length (candidate_Answers c) = 3"
    by linarith
  then show ?thesis
    by cases simp_all
qed


lemma mset_swap_list: "i < length x \<Longrightarrow> j < length x \<Longrightarrow> mset (swap i j x) = mset x"
  unfolding swap_def by (rule mset_swap)

lemma length_swap [simp]: "length (swap i j x) = length x"
  by (simp add: swap_def)

lemma mset_shuffle_loop: "i < length x \<Longrightarrow> mset (shuffle_loop draw i x) = mset x"
proof (induction i arbitrary: x)
  case 0
  then show ?case by simp
next
  case (Suc i)
  have j: "draw (Suc i) mod (Suc i + 1) < length x"
    using Suc.prems by (simp add: less_le_trans [OF mod_less_divisor])
  have "mset (shuffle_loop draw i (swap (Suc i) (draw (Suc i) mod (Suc i + 1)) x)) =
        mset (swap (Suc i) (draw (Suc i) mod (Suc i + 1)) x)"
    using Suc.prems by (intro Suc.IH) simp
  with Suc.prems j show ?case
    by (simp add: mset_swap_list)
qed

lemma mset_randomize: "mset (randomize draw x) = mset x"
proof (cases x)
  case Nil
  then show ?thesis by (simp add: randomize_def)
next
  case (Cons a as)
  then show ?thesis by (simp add: randomize_def mset_shuffle_loop)
qed

lemma answers_loop_ok:
  "length answers = 4 \<Longrightarrow> map Decode_Candidate cur = map Some cs \<Longrightarrow>
   \<forall>c \<in> set cs. 4 \<le> length (candidate_Answers c) \<Longrightarrow>
   answers_loop cur answers =
     Next (map (\<lambda>i. answers ! i @
              map (\<lambda>c. \<lparr>answer_Id = candidate_Id c, answer_Name = candidate_Name c,
                         answer_Votes = candidate_Votes c,
                         answer_Answer = candidate_Answers c ! i\<rparr>) cs)
           [0, 1, 2, 3])"
proof (induction cur arbitrary: answers cs)
  case Nil
  then show ?case
    by (auto simp: numeral_eq_Suc length_Suc_conv)
next
  case (Cons d cur)
  from Cons.prems(2) obtain c cs' where
    cs: "cs = c # cs'" "Decode_Candidate d = Some c" "map Decode_Candidate cur = map Some cs'"
    by (cases cs) auto
  with Cons.prems(3) have len: "4 \<le> length (candidate_Answers c)"
    and rest: "\<forall>c \<in> set cs'. 4 \<le> length (candidate_Answers c)"
    by simp_all
  let ?answers' = "map (\<lambda>i. answers ! i @
            [\<lparr>answer_Id = candidate_Id c, answer_Name = candidate_Name c,
              answer_Votes = candidate_Votes c, answer_Answer = candidate_Answers c ! i\<rparr>])
          [0, 1, 2, 3]"
  have step: "question_loop c [0..<questionCount] answers = Inr ?answers'"
    using question_loop_ok [OF Cons.prems(1) len] by (simp add: upt_questionCount)
  have "length ?answers' = 4" by simp
  from Cons.IH [OF this cs(3) rest] step cs(1,2) show ?case
    by simp
qed

lemma answers_loop_short:
  "length answers = 4 \<Longrightarrow> map Decode_Candidate cur = map Some cs \<Longrightarrow>
   \<exists>c \<in> set cs. length (candidate_Answers c) < 4 \<Longrightarrow>
   \<exists>c \<in> set cs. length (candidate_Answers c) < 4 \<and>
     answers_loop cur answers =
       Crash (IndexOutOfRange (length (candidate_Answers c)) (length (candidate_Answers c)))"
proof (induction cur arbitrary: answers cs)
  case Nil
  then show ?case by simp
next
  case (Cons d cur)
  from Cons.prems(2) obtain c cs' where
    cs: "cs = c # cs'" "Decode_Candidate d = Some c" "map Decode_Candidate cur = map Some cs'"
    by (cases cs) auto
  show ?case
  proof (cases "length (candidate_Answers c) < 4")
    case True
    then show ?thesis
      using cs(1,2) question_loop_short [OF True, of answers]
      by (simp add: upt_questionCount)
  next
    case False
    then have len: "4 \<le> length (candidate_Answers c)" by simp
    from False Cons.prems(3) cs(1)
    have rest: "\<exists>c \<in> set cs'. length (candidate_Answers c) < 4" by auto
    let ?answers' = "map (\<lambda>i. answers ! i @
            [\<lparr>answer_Id = candidate_Id c, answer_Name = candidate_Name c,
              answer_Votes = candidate_Votes c, answer_Answer = candidate_Answers c ! i\<rparr>])
          [0, 1, 2, 3]"
    have step: "question_loop c [0..<questionCount] answers = Inr ?answers'"
      using question_loop_ok [OF Cons.prems(1) len] by (simp add: upt_questionCount)
    have "length ?answers' = 4" by simp
    from Cons.IH [OF this cs(3) rest] obtain c' where
      "c' \<in> set cs'" "length (candidate_Answers c') < 4"
      "answers_loop cur ?answers' =
        Crash (IndexOutOfRange (length (candidate_Answers c')) (length (candidate_Answers c')))"
      by blast
    with step cs(1,2) show ?thesis
      by auto
  qed
qed

lemma question_loop_no_panic:
  "\<forall>i \<in> set idx. i < length (candidate_Answers c) \<Longrightarrow>
   \<exists>answers'. question_loop c idx answers = Inr answers'"
  by (induction idx arbitrary: answers) simp_all

lemma answers_loop_in_bounds:
  "\<forall>d \<in> set cur. \<forall>c. Decode_Candidate d = Some c \<longrightarrow>
      questionCount \<le> length (candidate_Answers c) \<Longrightarrow>
   answers_loop cur answers \<noteq> Crash p"
proof (induction cur arbitrary: answers)
  case Nil
  then show ?case by simp
next
  case (Cons d cur)
  show ?case
  proof (cases "Decode_Candidate d")
    case None
    then show ?thesis by simp
  next
    case (Some c)
    with Cons.prems have "questionCount \<le> length (candidate_Answers c)" by simp
    then have "\<forall>i \<in> set [0..<questionCount]. i < length (candidate_Answers c)" by simp
    from question_loop_no_panic [OF this] obtain answers' where
      "question_loop c [0..<questionCount] answers = Inr answers'" by blast
    with Some Cons.IH [of answers'] Cons.prems show ?thesis by simp
  qed
qed


text \<open>
  C6. On a request that carries its branch, when the query runs to completion (\<^verbatim>\<open>Find\<close>
  succeeds and the cursor delivers every document), every stored
  document decodes into a candidate and every candidate has at least
  \<^const>\<open>questionCount\<close> answers: the answer is the success envelope with 4 buckets under
  the key \<open>answers\<close>; as a multiset, bucket \<open>i\<close> holds for each candidate one entry with
  the candidate's id, name, votes and answer \<open>i\<close>; and the multiset of the pairs
  (candidate id, question index) over all buckets is that of the candidates. This holds
  for every sequence of random draws.
\<close>

theorem answers_grouping:
  "ctx r ''branch'' = Some branch \<Longrightarrow>
   \<not> find_fails env \<Longrightarrow>
   map Decode_Candidate (db branch) = map Some candidates \<Longrightarrow>
   \<forall>c \<in> set candidates. questionCount \<le> length (candidate_Answers c) \<Longrightarrow>
   \<exists>buckets.
     GetAnswers env r db =
       Done (render_Render r (Response Success (AnyMap [(''answers'', AnswerBuckets buckets)])))
         db \<and>
     length buckets = 4 \<and>
     (\<forall>i < 4. mset (buckets ! i) =
        image_mset (\<lambda>c. \<lparr>answer_Id = candidate_Id c, answer_Name = candidate_Name c,
                           answer_Votes = candidate_Votes c,
                           answer_Answer = candidate_Answers c ! i\<rparr>) (mset candidates)) \<and>
     mset (concat (map (\<lambda>i. map (\<lambda>a. (answer_Id a, i)) (buckets ! i)) [0..<4])) =
       mset (concat (map (\<lambda>i. map (\<lambda>c. (candidate_Id c, i)) candidates) [0..<4]))"
proof -
  assume b: "ctx r ''branch'' = Some branch" and f: "\<not> find_fails env"
    and dec: "map Decode_Candidate (db branch) = map Some candidates"
    and len: "\<forall>c \<in> set candidates. questionCount \<le> length (candidate_Answers c)"
  let ?answer = "\<lambda>i c. \<lparr>answer_Id = candidate_Id c, answer_Name = candidate_Name c,
                           answer_Votes = candidate_Votes c,
                           answer_Answer = candidate_Answers c ! i\<rparr>"
  let ?answers = "map (\<lambda>i. replicate questionCount [] ! i @ map (?answer i) candidates)
                    [0, 1, 2, 3]"
  let ?buckets = "map (\<lambda>i. randomize (rand_draw env i) (?answers ! i)) [0..<questionCount]"
  have loop: "answers_loop (db branch) (replicate questionCount []) = Next ?answers"
    using len by (intro answers_loop_ok [OF _ dec]) (simp_all add: questionCount_def)
  have run: "GetAnswers env r db =
       Done (render_Render r (Response Success (AnyMap [(''answers'', AnswerBuckets ?buckets)])))
         db"
    using b loop by (simp add: GetAnswers_def Find_completes [OF f] NewResponseSuccess_def)
  have n: "length ?buckets = 4"
    by (simp add: questionCount_def)
  have each: "mset (?buckets ! i) = image_mset (?answer i) (mset candidates)" if "i < 4" for i
  proof -
    from that consider "i = 0" | "i = 1" | "i = 2" | "i = 3" by linarith
    then show ?thesis
      by cases (simp_all add: upt_questionCount mset_randomize questionCount_def)
  qed
  have pairs: "mset (map (\<lambda>a. (answer_Id a, i)) (?buckets ! i)) =
               mset (map (\<lambda>c. (candidate_Id c, i)) candidates)" if "i < 4" for i
  proof -
    have "mset (map (\<lambda>a. (answer_Id a, i)) (?buckets ! i)) =
          image_mset (\<lambda>a. (answer_Id a, i)) (mset (?buckets ! i))"
      by simp
    also have "\<dots> = image_mset (\<lambda>a. (answer_Id a, i)) (image_mset (?answer i) (mset candidates))"
      using each [OF that] by simp
    also have "\<dots> = mset (map (\<lambda>c. (candidate_Id c, i)) candidates)"
      by (simp add: image_mset.compositionality comp_def)
    finally show ?thesis .
  qed
  have upt4: "[0..<4] = [0, 1, 2, 3::nat]"
    using upt_questionCount by (simp add: questionCount_def)
  have all: "mset (concat (map (\<lambda>i. map (\<lambda>a. (answer_Id a, i)) (?buckets ! i)) [0..<4])) =
       mset (concat (map (\<lambda>i. map (\<lambda>c. (candidate_Id c, i)) candidates) [0..<4]))"
    unfolding upt4 using pairs [of 0] pairs [of 1] pairs [of 2] pairs [of 3]
    by (simp del: mset_map)
  from run n each all show ?thesis
    by blast
qed

theorem answers_grouping_witness:
  "ctx (get_request ''senate'') ''branch'' = Some ''senate'' \<and>
   \<not> find_fails (working_store []) \<and>
   GetAnswers (working_store []) (get_request ''senate'') sample_db =
     Done \<lparr>code = 200, payload = Response Success (AnyMap [(''answers'', AnswerBuckets
       [[\<lparr>answer_Id = [0, 0, 0, 0, 0, 0, 0, 0, 0, 0, 0, 2], answer_Name = ''Bob'',
           answer_Votes = 2, answer_Answer = ''w''\<rparr>,
         \<lparr>answer_Id = [0, 0, 0, 0, 0, 0, 0, 0, 0, 0, 0, 1], answer_Name = ''Alice'',
           answer_Votes = 0, answer_Answer = ''a''\<rparr>],
        [\<lparr>answer_Id = [0, 0, 0, 0, 0, 0, 0, 0, 0, 0, 0, 2], answer_Name = ''Bob'',
           answer_Votes = 2, answer_Answer = ''x''\<rparr>,
         \<lparr>answer_Id = [0, 0, 0, 0, 0, 0, 0, 0, 0, 0, 0, 1], answer_Name = ''Alice'',
           answer_Votes = 0, answer_Answer = ''b''\<rparr>],
        [\<lparr>answer_Id = [0, 0, 0, 0, 0, 0, 0, 0, 0, 0, 0, 2], answer_Name = ''Bob'',
           answer_Votes = 2, answer_Answer = ''y''\<rparr>,
         \<lparr>answer_Id = [0, 0, 0, 0, 0, 0, 0, 0, 0, 0, 0, 1], answer_Name = ''Alice'',
           answer_Votes = 0, answer_Answer = ''c''\<rparr>],
        [\<lparr>answer_Id = [0, 0, 0, 0, 0, 0, 0, 0, 0, 0, 0, 2], answer_Name = ''Bob'',
           answer_Votes = 2, answer_Answer = ''z''\<rparr>,
         \<lparr>answer_Id = [0, 0, 0, 0, 0, 0, 0, 0, 0, 0, 0, 1], answer_Name = ''Alice'',
           answer_Votes = 0, answer_Answer = ''d''\<rparr>]])])\<rparr> sample_db"
proof -
  let ?alice = "\<lparr>candidate_Id = [0, 0, 0, 0, 0, 0, 0, 0, 0, 0, 0, 1], candidate_Name = ''Alice'',
                 candidate_Votes = 0, candidate_Answers = [''a'', ''b'', ''c'', ''d'']\<rparr>"
  let ?bob = "\<lparr>candidate_Id = [0, 0, 0, 0, 0, 0, 0, 0, 0, 0, 0, 2], candidate_Name = ''Bob'',
               candidate_Votes = 2, candidate_Answers = [''w'', ''x'', ''y'', ''z'']\<rparr>"
  have h1: "ctx (get_request ''senate'') ''branch'' = Some ''senate''"
    by (simp add: get_request_def branch_request_def)
  have h2: "\<not> find_fails (working_store [])"
    by (simp add: working_store_def find_fails_def)
  have h3: "map Decode_Candidate (sample_db ''senate'') = map Some [?alice, ?bob]"
    by (simp add: sample_db_def alice_def bob_def Decode_Candidate_def fits_int32_def)
  have h4: "\<forall>c \<in> set [?alice, ?bob]. questionCount \<le> length (candidate_Answers c)"
    by (simp add: questionCount_def)
  from answers_grouping [where db = sample_db and branch = "''senate''", OF h1 h2 h3 h4]
  obtain buckets where
    run: "GetAnswers (working_store []) (get_request ''senate'') sample_db =
       Done (render_Render (get_request ''senate'')
         (Response Success (AnyMap [(''answers'', AnswerBuckets buckets)]))) sample_db"
    and n: "length buckets = 4"
    by blast
  have "GetAnswers (working_store []) (get_request ''senate'') sample_db =
     Done \<lparr>code = 200, payload = Response Success (AnyMap [(''answers'', AnswerBuckets
       [[\<lparr>answer_Id = [0, 0, 0, 0, 0, 0, 0, 0, 0, 0, 0, 2], answer_Name = ''Bob'',
           answer_Votes = 2, answer_Answer = ''w''\<rparr>,
         \<lparr>answer_Id = [0, 0, 0, 0, 0, 0, 0, 0, 0, 0, 0, 1], answer_Name = ''Alice'',
           answer_Votes = 0, answer_Answer = ''a''\<rparr>],
        [\<lparr>answer_Id = [0, 0, 0, 0, 0, 0, 0, 0, 0, 0, 0, 2], answer_Name = ''Bob'',
           answer_Votes = 2, answer_Answer = ''x''\<rparr>,
         \<lparr>answer_Id = [0, 0, 0, 0, 0, 0, 0, 0, 0, 0, 0, 1], answer_Name = ''Alice'',
           answer_Votes = 0, answer_Answer = ''b''\<rparr>],
        [\<lparr>answer_Id = [0, 0, 0, 0, 0, 0, 0, 0, 0, 0, 0, 2], answer_Name = ''Bob'',
           answer_Votes = 2, answer_Answer = ''y''\<rparr>,
         \<lparr>answer_Id = [0, 0, 0, 0, 0, 0, 0, 0, 0, 0, 0, 1], answer_Name = ''Alice'',
           answer_Votes = 0, answer_Answer = ''c''\<rparr>],
        [\<lparr>answer_Id = [0, 0, 0, 0, 0, 0, 0, 0, 0, 0, 0, 2], answer_Name = ''Bob'',
           answer_Votes = 2, answer_Answer = ''z''\<rparr>,
         \<lparr>answer_Id = [0, 0, 0, 0, 0, 0, 0, 0, 0, 0, 0, 1], answer_Name = ''Alice'',
           answer_Votes = 0, answer_Answer = ''d''\<rparr>]])])\<rparr> sample_db"
    by (simp add: GetAnswers_def Find_def working_store_def get_request_def
        branch_request_def sample_db_def alice_def bob_def Decode_Candidate_def fits_int32_def
        upt_questionCount replicate_questionCount render_Render_def NewResponseSuccess_def
        StatusOK_def randomize_def swap_def no_draw_def)
  with h1 h2 run n show ?thesis by simp
qed

lemma Find_unsorted_subset:
  "Find env db coll Unsorted = Inr cur \<Longrightarrow> set cur \<subseteq> set (db coll)"
  by (cases "find_outcome env") (auto simp: Find_def dest: in_set_takeD)

text \<open>
  C10. \<^verbatim>\<open>GetAnswers\<close> reads \<^verbatim>\<open>candidate.Answers[i]\<close> for every \<open>i\<close> below
  \<^const>\<open>questionCount\<close>, with no check of its own. When every stored document that
  decodes has at least \<^const>\<open>questionCount\<close> answers, the handler does not panic on a
  request that carries its branch. When the query runs to completion, all documents
  decode and one has fewer answers,
  the handler panics with an index out of range, at the index that is the number of
  answers of such a candidate.
\<close>

theorem answers_indexing:
  "((\<forall>d \<in> set (db branch). \<forall>c. Decode_Candidate d = Some c \<longrightarrow>
        questionCount \<le> length (candidate_Answers c)) \<and> ctx r ''branch'' = Some branch \<longrightarrow>
      GetAnswers env r db \<noteq> Panic p) \<and>
   (ctx r ''branch'' = Some branch \<and> \<not> find_fails env \<and>
    map Decode_Candidate (db branch) = map Some candidates \<and>
    (\<exists>c \<in> set candidates. length (candidate_Answers c) < questionCount) \<longrightarrow>
      (\<exists>c \<in> set candidates. length (candidate_Answers c) < questionCount \<and>
         GetAnswers env r db =
           Panic (IndexOutOfRange (length (candidate_Answers c))
                    (length (candidate_Answers c)))))"
proof (intro conjI impI)
  assume a: "(\<forall>d \<in> set (db branch). \<forall>c. Decode_Candidate d = Some c \<longrightarrow>
        questionCount \<le> length (candidate_Answers c)) \<and> ctx r ''branch'' = Some branch"
  have "answers_loop cur (replicate questionCount []) \<noteq> Crash p"
    if "Find env db branch Unsorted = Inr cur" for cur
  proof -
    from that have "set cur \<subseteq> set (db branch)"
      by (rule Find_unsorted_subset)
    with a show ?thesis
      by (intro answers_loop_in_bounds) blast
  qed
  with a show "GetAnswers env r db \<noteq> Panic p"
    by (auto simp: GetAnswers_def split: sum.splits step.splits if_splits)
next
  assume a: "ctx r ''branch'' = Some branch \<and> \<not> find_fails env \<and>
    map Decode_Candidate (db branch) = map Some candidates \<and>
    (\<exists>c \<in> set candidates. length (candidate_Answers c) < questionCount)"
  then have "\<exists>c \<in> set candidates. length (candidate_Answers c) < 4 \<and>
     answers_loop (db branch) (replicate questionCount []) =
       Crash (IndexOutOfRange (length (candidate_Answers c)) (length (candidate_Answers c)))"
    by (intro answers_loop_short) (simp_all add: questionCount_def)
  with a show "\<exists>c \<in> set candidates. length (candidate_Answers c) < questionCount \<and>
         GetAnswers env r db =
           Panic (IndexOutOfRange (length (candidate_Answers c))
                    (length (candidate_Answers c)))"
    by (auto simp: GetAnswers_def Find_completes questionCount_def)
qed

theorem answers_indexing_witness:
  "GetAnswers (working_store []) (get_request ''senate'') sample_db
     \<noteq> Panic (IndexOutOfRange 0 0) \<and>
   GetAnswers (working_store []) (get_request ''senate'')
     (empty_db(''senate'' := [alice, dave])) = Panic (IndexOutOfRange 2 2)"
  using
    answers_indexing [of sample_db "''senate''" "get_request ''senate''" "working_store []"
      "IndexOutOfRange 0 0" "[]"]
    answers_indexing [of "empty_db(''senate'' := [alice, dave])" "''senate''"
      "get_request ''senate''" "working_store []" "IndexOutOfRange 0 0"
      "[\<lparr>candidate_Id = [0, 0, 0, 0, 0, 0, 0, 0, 0, 0, 0, 1], candidate_Name = ''Alice'',
         candidate_Votes = 0, candidate_Answers = [''a'', ''b'', ''c'', ''d'']\<rparr>,
        \<lparr>candidate_Id = [0, 0, 0, 0, 0, 0, 0, 0, 0, 0, 0, 4], candidate_Name = ''Dave'',
         candidate_Votes = 1, candidate_Answers = [''p'', ''q'']\<rparr>]"]
  by (simp add: get_request_def branch_request_def working_store_def find_fails_def
      sample_db_def alice_def bob_def dave_def Decode_Candidate_def fits_int32_def
      questionCount_def)

end
